theory Spec2Isabelle
  imports Complex_Main "HOL-Library.Char_ord" "HOL-Library.List_Lexorder" "HOL-Library.Multiset"
begin

section \<open>Job model (models.py)\<close>

text \<open>
  \<open>JobState\<close> is the string enumeration of models.py. A \<open>Job\<close> carries the nine
  attributes of the Python class; the primary key \<open>id\<close> is called \<open>job_id\<close> here.
  Timestamps are the ISO-8601 texts the code stores, so they are strings; the two optional
  attributes are \<open>None\<close> or a string, as in Python.
\<close>

datatype JobState = PENDING | PROCESSING | COMPLETED | FAILED | DEAD

record Job =
  job_id :: string
  command :: string
  state :: JobState
  attempts :: int
  max_retries :: int
  created_at :: string
  updated_at :: string
  next_retry_at :: "string option"
  error_message :: "string option"

section \<open>The store (storage.py)\<close>

text \<open>
  A row of table \<open>jobs\<close> holds the nine job columns and the column
  \<open>locked_until REAL DEFAULT 0\<close>. Clock readings (\<open>time.time()\<close>) and the lock column
  are real numbers of seconds. A row of table \<open>dlq\<close> holds the id, the JSON snapshot of the
  job (\<open>to_json\<close>, read back by \<open>from_json\<close>; kept as the job value), the time of the move
  and the reason. No statement of the code writes NULL to the lock column, so it
  always holds a number. The table \<open>jobs\<close> is the list of its rows in rowid order: a
  new row gets the largest rowid, an updated row keeps its place. The configuration file is a
  dictionary from keys to integers (the defaults written by \<open>_ensure_config\<close>, and what
  the command line stores for an integer argument).
\<close>

record row =
  job :: Job
  locked_until :: real

record dlq_row =
  dlq_id :: string
  job_data :: Job
  moved_at :: string
  reason :: string

record store =
  jobs :: "row list"
  dlq :: "dlq_row list"
  config :: "string \<rightharpoonup> int"

datatype error =
    StorageError string
  | IntegrityError
  | ZeroDivisionError
  | TimeoutExpired
  | LaunchError string

definition row_id :: "row \<Rightarrow> string" where
  "row_id r = job_id (job r)"

text \<open>\<open>SELECT ... FROM jobs WHERE id = ?\<close> followed by \<open>fetchone()\<close>.\<close>

definition select_row :: "string \<Rightarrow> store \<Rightarrow> row option" where
  "select_row i s = find (\<lambda>r. row_id r = i) (jobs s)"

text \<open>
  \<open>add_job\<close>: the job object gets a fresh \<open>updated_at\<close> (the argument \<open>ts\<close> is
  \<open>datetime.utcnow().isoformat() + "Z"\<close>), then \<open>INSERT OR REPLACE\<close> writes the eight
  listed columns. A row with the same id is deleted first; the columns that the statement
  does not list take their defaults, \<open>next_retry_at\<close> NULL and \<open>locked_until\<close> 0.
  The function returns the mutated job object and the new store.
\<close>

definition add_job :: "string \<Rightarrow> Job \<Rightarrow> store \<Rightarrow> Job \<times> store" where
  "add_job ts j s =
     (let j' = j\<lparr>updated_at := ts\<rparr>
      in (j', s\<lparr>jobs := filter (\<lambda>r. row_id r \<noteq> job_id j') (jobs s) @
                   [\<lparr>job = j'\<lparr>next_retry_at := None\<rparr>, locked_until = 0\<rparr>]\<rparr>))"

definition get_job :: "string \<Rightarrow> store \<Rightarrow> Job option" where
  "get_job i s = (case select_row i s of None \<Rightarrow> None | Some r \<Rightarrow> Some (job r))"

text \<open>\<open>SELECT * FROM jobs WHERE state = ? ORDER BY created_at\<close>: text comparison of the column.\<close>

definition get_jobs_by_state :: "JobState \<Rightarrow> store \<Rightarrow> Job list" where
  "get_jobs_by_state st s =
     map job (sort_key (\<lambda>r. created_at (job r)) (filter (\<lambda>r. state (job r) = st) (jobs s)))"

text \<open>
  \<open>get_ready_jobs\<close>. The first query is the pending rows ordered by \<open>created_at\<close>; the
  second is the failed rows with \<open>next_retry_at IS NOT NULL\<close>, with no ordering clause.
  The loop over the failed rows parses a non-empty \<open>next_retry_at\<close>; the parameter
  \<open>parse\<close> stands for \<open>datetime.fromisoformat(text.replace("Z", "+00:00"))\<close> made naive,
  and is \<open>None\<close> where that call raises (the code catches the exception). A row is kept
  when the parsed time is \<open>None\<close> or not after \<open>now\<close> (\<open>datetime.utcnow()\<close>).
\<close>

definition parse_next_retry :: "(string \<Rightarrow> real option) \<Rightarrow> row \<Rightarrow> real option" where
  "parse_next_retry parse r =
     (case next_retry_at (job r) of
        None \<Rightarrow> None
      | Some t \<Rightarrow> (if t \<noteq> [] then parse t else None))"

definition retry_due :: "(string \<Rightarrow> real option) \<Rightarrow> real \<Rightarrow> row \<Rightarrow> bool" where
  "retry_due parse now r =
     (case parse_next_retry parse r of None \<Rightarrow> True | Some t \<Rightarrow> t \<le> now)"

definition get_ready_jobs :: "(string \<Rightarrow> real option) \<Rightarrow> real \<Rightarrow> store \<Rightarrow> Job list" where
  "get_ready_jobs parse now s =
     (let pending_rows =
            sort_key (\<lambda>r. created_at (job r)) (filter (\<lambda>r. state (job r) = PENDING) (jobs s));
          failed_rows =
            filter (\<lambda>r. state (job r) = FAILED \<and> next_retry_at (job r) \<noteq> None) (jobs s)
      in map job pending_rows @ map job (filter (retry_due parse now) failed_rows))"

text \<open>
  \<open>update_job\<close>: \<open>UPDATE jobs SET\<close> the eight job columns \<open>WHERE id = ?\<close>; the lock
  column is not written. Nothing happens when no row has the id.
\<close>

definition update_job :: "string \<Rightarrow> Job \<Rightarrow> store \<Rightarrow> Job \<times> store" where
  "update_job ts j s =
     (let j' = j\<lparr>updated_at := ts\<rparr>
      in (j', s\<lparr>jobs := map (\<lambda>r. if row_id r = job_id j' then r\<lparr>job := j'\<rparr> else r) (jobs s)\<rparr>))"

definition delete_job :: "string \<Rightarrow> store \<Rightarrow> store" where
  "delete_job i s = s\<lparr>jobs := filter (\<lambda>r. row_id r \<noteq> i) (jobs s)\<rparr>"

text \<open>
  \<open>move_to_dlq\<close>: one transaction with an \<open>INSERT INTO dlq\<close> and a
  \<open>DELETE FROM jobs\<close>, committed once. The id is the primary key of \<open>dlq\<close>, so the insert
  raises \<open>sqlite3.IntegrityError\<close> when the id is already there; nothing is committed then.
\<close>

definition move_to_dlq :: "string \<Rightarrow> Job \<Rightarrow> string \<Rightarrow> store \<Rightarrow> error + store" where
  "move_to_dlq ts j why s =
     (if job_id j \<in> set (map dlq_id (dlq s)) then Inl IntegrityError
      else Inr (s\<lparr>dlq := dlq s @ [\<lparr>dlq_id = job_id j, job_data = j, moved_at = ts, reason = why\<rparr>],
                 jobs := filter (\<lambda>r. row_id r \<noteq> job_id j) (jobs s)\<rparr>))"

definition get_dlq_job :: "string \<Rightarrow> store \<Rightarrow> Job option" where
  "get_dlq_job i s =
     (case find (\<lambda>d. dlq_id d = i) (dlq s) of None \<Rightarrow> None | Some d \<Rightarrow> Some (job_data d))"

definition remove_from_dlq :: "string \<Rightarrow> store \<Rightarrow> store" where
  "remove_from_dlq i s = s\<lparr>dlq := filter (\<lambda>d. dlq_id d \<noteq> i) (dlq s)\<rparr>"

definition get_config :: "store \<Rightarrow> (string \<rightharpoonup> int)" where
  "get_config s = config s"

definition set_config :: "string \<Rightarrow> int \<Rightarrow> store \<Rightarrow> store" where
  "set_config k v s = s\<lparr>config := (get_config s)(k \<mapsto> v)\<rparr>"

text \<open>
  \<open>acquire_job_lock\<close> is two statements. The first reads \<open>locked_until\<close> of the row
  (\<open>acquire_select\<close>). The second part compares the value read with the caller's clock
  reading \<open>now\<close> (taken before the read) and, when \<open>locked_until < now\<close>, writes
  \<open>now + duration\<close> with an \<open>UPDATE\<close> and commits (\<open>acquire_update\<close>).
\<close>

definition acquire_select :: "string \<Rightarrow> store \<Rightarrow> real option" where
  "acquire_select i s =
     (case select_row i s of None \<Rightarrow> None | Some r \<Rightarrow> Some (locked_until r))"

definition set_lock :: "string \<Rightarrow> real \<Rightarrow> store \<Rightarrow> store" where
  "set_lock i t s =
     s\<lparr>jobs := map (\<lambda>r. if row_id r = i then r\<lparr>locked_until := t\<rparr> else r) (jobs s)\<rparr>"

definition acquire_update :: "real \<Rightarrow> real \<Rightarrow> string \<Rightarrow> real option \<Rightarrow> store \<Rightarrow> bool \<times> store" where
  "acquire_update now duration i fetched s =
     (case fetched of
        None \<Rightarrow> (False, s)
      | Some lu \<Rightarrow> (if lu < now then (True, set_lock i (now + duration) s) else (False, s)))"

definition acquire_job_lock :: "real \<Rightarrow> real \<Rightarrow> string \<Rightarrow> store \<Rightarrow> bool \<times> store" where
  "acquire_job_lock now duration i s = acquire_update now duration i (acquire_select i s) s"

definition release_job_lock :: "string \<Rightarrow> store \<Rightarrow> store" where
  "release_job_lock i s = set_lock i 0 s"

definition clear_expired_locks :: "real \<Rightarrow> store \<Rightarrow> store" where
  "clear_expired_locks now s =
     s\<lparr>jobs := map (\<lambda>r. if locked_until r < now \<and> locked_until r > 0
                          then r\<lparr>locked_until := 0\<rparr> else r) (jobs s)\<rparr>"

section \<open>Dead-letter requeue (cli.py)\<close>

text \<open>
  \<open>dlq_retry\<close> of the command line: look the job up in the dead-letter table (exit with
  status 1 when it is absent, the value \<open>None\<close> here), reset four attributes, write the
  job with \<open>add_job\<close> and, in a second transaction, delete the dead-letter row.
\<close>

definition dlq_retry_reset :: "Job \<Rightarrow> Job" where
  "dlq_retry_reset j = j\<lparr>state := PENDING, attempts := 0, error_message := None, next_retry_at := None\<rparr>"

definition dlq_retry_add :: "string \<Rightarrow> string \<Rightarrow> store \<Rightarrow> store option" where
  "dlq_retry_add ts i s =
     (case get_dlq_job i s of
        None \<Rightarrow> None
      | Some j \<Rightarrow> Some (snd (add_job ts (dlq_retry_reset j) s)))"

definition dlq_retry :: "string \<Rightarrow> string \<Rightarrow> store \<Rightarrow> store option" where
  "dlq_retry ts i s =
     (case dlq_retry_add ts i s of None \<Rightarrow> None | Some s' \<Rightarrow> Some (remove_from_dlq i s'))"

section \<open>Two callers of \<open>acquire_job_lock\<close>\<close>

text \<open>
  Workers are separate processes with their own connections. Each of the two statements
  of \<open>acquire_job_lock\<close> is atomic, and statements of another connection can run between
  them. A caller is at its \<open>SELECT\<close>, or holds the fetched value and is at its comparison
  and \<open>UPDATE\<close>, or has returned. A schedule names the caller that takes the next step.
\<close>

datatype acq_pc = At_select | At_update "real option" | Returned bool

fun acq_step :: "real \<Rightarrow> real \<Rightarrow> string \<Rightarrow> acq_pc \<Rightarrow> store \<Rightarrow> acq_pc \<times> store" where
  "acq_step now duration i At_select s = (At_update (acquire_select i s), s)"
| "acq_step now duration i (At_update fetched) s =
     (case acquire_update now duration i fetched s of (b, s') \<Rightarrow> (Returned b, s'))"
| "acq_step now duration i (Returned b) s = (Returned b, s)"

datatype caller = First | Second

fun interleave ::
  "real \<Rightarrow> real \<Rightarrow> real \<Rightarrow> string \<Rightarrow> caller list \<Rightarrow> acq_pc \<times> acq_pc \<times> store \<Rightarrow> acq_pc \<times> acq_pc \<times> store"
where
  "interleave now1 now2 duration i [] st = st"
| "interleave now1 now2 duration i (First # sched) (p1, p2, s) =
     (case acq_step now1 duration i p1 s of
        (p1', s') \<Rightarrow> interleave now1 now2 duration i sched (p1', p2, s'))"
| "interleave now1 now2 duration i (Second # sched) (p1, p2, s) =
     (case acq_step now2 duration i p2 s of
        (p2', s') \<Rightarrow> interleave now1 now2 duration i sched (p1, p2', s'))"

section \<open>Retry delay (worker.py)\<close>

text \<open>
  \<open>min(backoff_base ** (job.attempts - 1), backoff_max)\<close> on Python integers. With a
  non-negative exponent the power is an integer. With a negative exponent Python computes
  a float, and raises \<open>ZeroDivisionError\<close> for base 0.
\<close>

definition backoff_delay :: "int \<Rightarrow> int \<Rightarrow> int \<Rightarrow> error + real" where
  "backoff_delay backoff_base backoff_max n =
     (if 1 \<le> n then Inr (real_of_int (min (backoff_base ^ nat (n - 1)) backoff_max))
      else if backoff_base = 0 then Inl ZeroDivisionError
      else Inr (min (1 / real_of_int (backoff_base ^ nat (1 - n))) (real_of_int backoff_max)))"

section \<open>The worker (worker.py)\<close>

text \<open>
  The worker runs against a world: the store, the trace of the storage methods it has
  called and of what \<open>run\<close> has printed, and an oracle for the database. The oracle has one
  entry for each storage call still to come: \<open>Some m\<close> when that call raises an
  \<open>sqlite3\<close> error with message \<open>m\<close> (database locked, disk failure), \<open>None\<close> when it
  goes through; past the end of the list every call goes through.
\<close>

datatype event =
    ClearExpiredLocks
  | GetReadyJobs
  | AcquireJobLock string
  | UpdateJob string
  | ReleaseJobLock string
  | GetConfig
  | MoveToDlq string
  | PrintStarted
  | PrintError string
  | PrintStopped

record world =
  db :: store
  calls :: "event list"
  faults :: "string option list"

datatype outcome =
    Exit int string string
  | Timeout
  | Launch string

text \<open>
  A statement of the worker takes a state and returns a value or a raised exception,
  with the state it leaves. \<open>seq\<close> is sequencing, \<open>try_except\<close> and \<open>try_finally\<close> are
  Python's: the \<open>finally\<close> block runs on both exits, and an exception it raises itself
  replaces the pending result.
\<close>

type_synonym ('s, 'a) prog = "'s \<Rightarrow> (error + 'a) \<times> 's"

definition seq :: "('s, 'a) prog \<Rightarrow> ('a \<Rightarrow> ('s, 'b) prog) \<Rightarrow> ('s, 'b) prog" where
  "seq m f s = (case m s of (Inl e, s') \<Rightarrow> (Inl e, s') | (Inr a, s') \<Rightarrow> f a s')"

definition raise :: "error \<Rightarrow> ('s, 'a) prog" where
  "raise e s = (Inl e, s)"

definition try_except :: "('s, 'a) prog \<Rightarrow> (error \<Rightarrow> ('s, 'a) prog) \<Rightarrow> ('s, 'a) prog" where
  "try_except body handler s =
     (case body s of (Inl e, s') \<Rightarrow> handler e s' | (Inr a, s') \<Rightarrow> (Inr a, s'))"

definition try_finally :: "('s, 'a) prog \<Rightarrow> ('s, unit) prog \<Rightarrow> ('s, 'a) prog" where
  "try_finally body final s =
     (case body s of
        (r, s') \<Rightarrow> (case final s' of (Inl e, s'') \<Rightarrow> (Inl e, s'') | (Inr u, s'') \<Rightarrow> (r, s'')))"

text \<open>
  A call of a storage method: it is recorded, then the oracle decides whether the
  database raises; otherwise the method runs on the store.
\<close>

definition storage_call :: "event \<Rightarrow> (store \<Rightarrow> error + 'a \<times> store) \<Rightarrow> (world, 'a) prog" where
  "storage_call c method w =
     (let w1 = w\<lparr>calls := calls w @ [c], faults := drop 1 (faults w)\<rparr>
      in case faults w of
           Some m # rest \<Rightarrow> (Inl (StorageError m), w1)
         | other \<Rightarrow>
             (case method (db w1) of
                Inl e \<Rightarrow> (Inl e, w1)
              | Inr (a, d) \<Rightarrow> (Inr a, w1\<lparr>db := d\<rparr>)))"

text \<open>\<open>str(e)\<close> for the exceptions of the model.\<close>

fun str_error :: "error \<Rightarrow> string" where
  "str_error (StorageError m) = m"
| "str_error IntegrityError = ''UNIQUE constraint failed: dlq.id''"
| "str_error ZeroDivisionError = ''0.0 cannot be raised to a negative power''"
| "str_error TimeoutExpired = ''Command timed out after 300.0 seconds''"
| "str_error (LaunchError m) = m"

text \<open>Decimal text of an integer, for the reason written to the dead-letter table.\<close>

function str_nat :: "nat \<Rightarrow> string" where
  "str_nat n =
     (if n < 10 then [char_of (48 + n)] else str_nat (n div 10) @ [char_of (48 + n mod 10)])"
  by pat_completeness auto
termination
  by (relation "measure id") auto

declare str_nat.simps [simp del]

definition str_int :: "int \<Rightarrow> string" where
  "str_int k = (if k < 0 then CHR ''-'' # str_nat (nat (- k)) else str_nat (nat k))"

text \<open>
  The storage methods as the worker calls them. The state of \<open>_execute_job\<close> and
  \<open>_handle_job_failure\<close> is the job object together with the world: the methods
  \<open>update_job\<close> assigns \<open>updated_at\<close> on the object before it touches the database.
  The parameter \<open>fmt\<close> stands for \<open>isoformat() + "Z"\<close>.
\<close>

definition update_job_w :: "string \<Rightarrow> (Job \<times> world, unit) prog" where
  "update_job_w ts = (\<lambda>(j, w).
     (case storage_call (UpdateJob (job_id j)) (\<lambda>d. Inr ((), snd (update_job ts j d))) w of
        (r, w') \<Rightarrow> (r, (j\<lparr>updated_at := ts\<rparr>, w'))))"

definition move_to_dlq_w :: "string \<Rightarrow> string \<Rightarrow> (Job \<times> world, unit) prog" where
  "move_to_dlq_w ts why = (\<lambda>(j, w).
     (case storage_call (MoveToDlq (job_id j))
             (\<lambda>d. case move_to_dlq ts j why d of Inl e \<Rightarrow> Inl e | Inr d' \<Rightarrow> Inr ((), d')) w of
        (r, w') \<Rightarrow> (r, (j, w'))))"

definition get_config_w :: "(Job \<times> world, string \<rightharpoonup> int) prog" where
  "get_config_w = (\<lambda>(j, w).
     (case storage_call GetConfig (\<lambda>d. Inr (get_config d, d)) w of (r, w') \<Rightarrow> (r, (j, w'))))"

definition release_job_lock_w :: "(Job \<times> world, unit) prog" where
  "release_job_lock_w = (\<lambda>(j, w).
     (case storage_call (ReleaseJobLock (job_id j)) (\<lambda>d. Inr ((), release_job_lock (job_id j) d)) w of
        (r, w') \<Rightarrow> (r, (j, w'))))"

definition assign :: "(Job \<Rightarrow> Job) \<Rightarrow> (Job \<times> world, unit) prog" where
  "assign f = (\<lambda>(j, w). (Inr (), (f j, w)))"

definition dict_get :: "(string \<rightharpoonup> int) \<Rightarrow> string \<Rightarrow> int \<Rightarrow> int" where
  "dict_get d k dflt = (case d k of None \<Rightarrow> dflt | Some v \<Rightarrow> v)"

text \<open>
  \<open>_check_and_reschedule_failed_job\<close> parses the \<open>next_retry_at\<close> text that
  \<open>_handle_job_failure\<close> has just produced with \<open>isoformat\<close> and reads the clock; it
  changes nothing.
\<close>

definition check_and_reschedule_failed_job :: "int \<Rightarrow> (Job \<times> world, unit) prog" where
  "check_and_reschedule_failed_job cfg_max_retries = (\<lambda>s. (Inr (), s))"

definition handle_job_failure :: "(real \<Rightarrow> string) \<Rightarrow> real \<Rightarrow> string \<Rightarrow> (Job \<times> world, unit) prog" where
  "handle_job_failure fmt now error_text =
     seq get_config_w (\<lambda>cfg.
       let cfg_max_retries = dict_get cfg ''max_retries'' 3;
           backoff_base = dict_get cfg ''backoff_base'' 2;
           backoff_max = dict_get cfg ''backoff_max_seconds'' 600
       in (\<lambda>(j, w).
         if attempts j < cfg_max_retries then
           (case backoff_delay backoff_base backoff_max (attempts j) of
              Inl e \<Rightarrow> raise e (j, w)
            | Inr delay \<Rightarrow>
                seq (assign (\<lambda>j. j\<lparr>state := FAILED, error_message := Some error_text,
                                    next_retry_at := Some (fmt (now + delay))\<rparr>))
                  (\<lambda>u. seq (update_job_w (fmt now))
                    (\<lambda>u. check_and_reschedule_failed_job cfg_max_retries)) (j, w))
         else
           seq (assign (\<lambda>j. j\<lparr>state := DEAD, error_message := Some error_text\<rparr>))
             (\<lambda>u. move_to_dlq_w (fmt now)
                    (''Max retries ('' @ str_int cfg_max_retries @ '') exceeded. Last error: '' @ error_text))
             (j, w)))"

text \<open>
  \<open>_execute_job\<close>. The outcome of \<open>subprocess.run\<close> is an input: an exit code with the
  captured \<open>stderr\<close> and \<open>stdout\<close>, a timeout, or another exception with its message.
  \<open>t0\<close> is the clock when the job is marked, \<open>t1\<close> the clock after the command.
\<close>

definition run_command :: "(real \<Rightarrow> string) \<Rightarrow> real \<Rightarrow> outcome \<Rightarrow> (Job \<times> world, unit) prog" where
  "run_command fmt t1 oc =
     (case oc of
        Exit returncode stderr stdout \<Rightarrow>
          (if returncode = 0
           then seq (assign (\<lambda>j. j\<lparr>state := COMPLETED, error_message := None\<rparr>))
                  (\<lambda>u. update_job_w (fmt t1))
           else handle_job_failure fmt t1 (if stderr \<noteq> [] then stderr else stdout))
      | Timeout \<Rightarrow> raise TimeoutExpired
      | Launch m \<Rightarrow> raise (LaunchError m))"

definition execute_job :: "(real \<Rightarrow> string) \<Rightarrow> real \<Rightarrow> real \<Rightarrow> outcome \<Rightarrow> (Job \<times> world, unit) prog" where
  "execute_job fmt t0 t1 oc =
     seq (assign (\<lambda>j. j\<lparr>state := PROCESSING, attempts := attempts j + 1\<rparr>))
       (\<lambda>u. seq (update_job_w (fmt t0))
         (\<lambda>u. try_finally
                (try_except (run_command fmt t1 oc)
                   (\<lambda>e. case e of
                           TimeoutExpired \<Rightarrow> handle_job_failure fmt t1 ''Job execution timeout''
                         | other \<Rightarrow> handle_job_failure fmt t1 (str_error e)))
                release_job_lock_w))"

text \<open>
  \<open>_get_next_job\<close>: the ready jobs in order, the first whose lock is acquired (for 300
  seconds) is returned; a failed one is first written back as pending.
\<close>

fun claim_first :: "(real \<Rightarrow> string) \<Rightarrow> real \<Rightarrow> Job list \<Rightarrow> (world, Job option) prog" where
  "claim_first fmt now [] w = (Inr None, w)"
| "claim_first fmt now (j # rest) w =
     (case storage_call (AcquireJobLock (job_id j))
             (\<lambda>d. Inr (acquire_job_lock now 300 (job_id j) d)) w of
        (Inl e, w') \<Rightarrow> (Inl e, w')
      | (Inr True, w') \<Rightarrow>
          (if state j = FAILED
           then (case update_job_w (fmt now) (j\<lparr>state := PENDING, next_retry_at := None\<rparr>, w') of
                   (Inl e, (j', w'')) \<Rightarrow> (Inl e, w'')
                 | (Inr u, (j', w'')) \<Rightarrow> (Inr (Some j'), w''))
           else (Inr (Some j), w'))
      | (Inr False, w') \<Rightarrow> claim_first fmt now rest w')"

definition get_next_job ::
  "(string \<Rightarrow> real option) \<Rightarrow> (real \<Rightarrow> string) \<Rightarrow> real \<Rightarrow> (world, Job option) prog" where
  "get_next_job parse fmt now =
     seq (storage_call GetReadyJobs (\<lambda>d. Inr (get_ready_jobs parse now d, d)))
       (\<lambda>ready_jobs. claim_first fmt now ready_jobs)"

text \<open>
  \<open>run\<close>. Each turn of the \<open>while self.running\<close> loop is given by a \<open>cycle\<close>: whether a
  shutdown signal has cleared the flag before the test, the clock at the poll and after
  the command, and the outcome of the command should a job be executed. The list of
  cycles is the part of the run that is observed: \<open>Polling\<close> is a worker still in its loop
  when the list ends, \<open>Stopped\<close> one that has left it.
\<close>

record cycle =
  stop :: bool
  t_poll :: real
  t_done :: real
  result :: outcome

datatype run_state = Polling | Stopped

definition poll_cycle ::
  "(string \<Rightarrow> real option) \<Rightarrow> (real \<Rightarrow> string) \<Rightarrow> cycle \<Rightarrow> (world, unit) prog" where
  "poll_cycle parse fmt c =
     seq (storage_call ClearExpiredLocks (\<lambda>d. Inr ((), clear_expired_locks (t_poll c) d)))
       (\<lambda>u. seq (get_next_job parse fmt (t_poll c))
         (\<lambda>next. case next of
                   Some j \<Rightarrow> (\<lambda>w. case execute_job fmt (t_poll c) (t_done c) (result c) (j, w) of
                                      (r, (j', w')) \<Rightarrow> (r, w'))
                 | None \<Rightarrow> (\<lambda>w. (Inr (), w))))"

fun run_loop ::
  "(string \<Rightarrow> real option) \<Rightarrow> (real \<Rightarrow> string) \<Rightarrow> cycle list \<Rightarrow> (world, run_state) prog" where
  "run_loop parse fmt [] w = (Inr Polling, w)"
| "run_loop parse fmt (c # cs) w =
     (if stop c then (Inr Stopped, w)
      else (case poll_cycle parse fmt c w of
              (Inl e, w') \<Rightarrow> (Inl e, w')
            | (Inr u, w') \<Rightarrow> run_loop parse fmt cs w'))"

definition print :: "event \<Rightarrow> world \<Rightarrow> world" where
  "print e w = w\<lparr>calls := calls w @ [e]\<rparr>"

definition run ::
  "(string \<Rightarrow> real option) \<Rightarrow> (real \<Rightarrow> string) \<Rightarrow> cycle list \<Rightarrow> world \<Rightarrow> run_state \<times> world" where
  "run parse fmt cs w =
     (case run_loop parse fmt cs (print PrintStarted w) of
        (Inl e, w') \<Rightarrow> (Stopped, print PrintStopped (print (PrintError (str_error e)) w'))
      | (Inr Stopped, w') \<Rightarrow> (Stopped, print PrintStopped w')
      | (Inr Polling, w') \<Rightarrow> (Polling, w'))"

section \<open>Invariants and example stores\<close>

text \<open>
  The ids of the live table and of the dead-letter table, and the statement that no id is
  in both. \<open>dlq_keyed\<close> says that every dead-letter row is filed under the id of the job
  it holds, as \<open>move_to_dlq\<close> writes it.
\<close>

definition live_ids :: "store \<Rightarrow> string set" where
  "live_ids s = set (map row_id (jobs s))"

definition dead_ids :: "store \<Rightarrow> string set" where
  "dead_ids s = set (map dlq_id (dlq s))"

definition exclusive :: "store \<Rightarrow> bool" where
  "exclusive s = (live_ids s \<inter> dead_ids s = {})"

definition dlq_keyed :: "store \<Rightarrow> bool" where
  "dlq_keyed s = list_all (\<lambda>d. job_id (job_data d) = dlq_id d) (dlq s)"

text \<open>
  The failed jobs that \<open>get_ready_jobs\<close> is expected to return: \<open>next_retry_at\<close> is
  present, and is empty, does not parse, or is not after \<open>now\<close>.
\<close>

definition failed_ready :: "(string \<Rightarrow> real option) \<Rightarrow> real \<Rightarrow> Job \<Rightarrow> bool" where
  "failed_ready parse now j =
     (state j = FAILED \<and>
      (case next_retry_at j of
         None \<Rightarrow> False
       | Some t \<Rightarrow> t = [] \<or> (case parse t of None \<Rightarrow> True | Some u \<Rightarrow> u \<le> now)))"

definition job_j :: Job where
  "job_j = \<lparr>job_id = ''j'', command = ''exit 1'', state = PENDING, attempts = 0, max_retries = 1,
         created_at = ''2024-01-01T00:00:00Z'', updated_at = ''2024-01-01T00:00:00Z'',
         next_retry_at = None, error_message = None\<rparr>"

definition job_k :: Job where
  "job_k = \<lparr>job_id = ''k'', command = ''false'', state = DEAD, attempts = 3, max_retries = 3,
         created_at = ''2024-01-01T00:00:05Z'', updated_at = ''2024-01-01T00:01:00Z'',
         next_retry_at = None, error_message = Some ''boom''\<rparr>"

definition job_f :: Job where
  "job_f = \<lparr>job_id = ''f'', command = ''false'', state = FAILED, attempts = 1, max_retries = 3,
         created_at = ''2024-01-01T00:00:07Z'', updated_at = ''2024-01-01T00:01:00Z'',
         next_retry_at = None, error_message = Some ''boom''\<rparr>"

definition store_locked :: store where
  "store_locked = \<lparr>jobs = [\<lparr>job = job_j, locked_until = 10\<rparr>], dlq = [], config = Map.empty\<rparr>"

definition store_dead :: store where
  "store_dead = \<lparr>jobs = [],
     dlq = [\<lparr>dlq_id = ''j'', job_data = job_j\<lparr>state := DEAD\<rparr>, moved_at = ''2024-01-02T00:00:00Z'',
             reason = ''Max retries (3) exceeded. Last error: boom''\<rparr>],
     config = Map.empty\<rparr>"

definition store_mixed :: store where
  "store_mixed = \<lparr>jobs = [\<lparr>job = job_j, locked_until = 10\<rparr>],
     dlq = [\<lparr>dlq_id = ''k'', job_data = job_k, moved_at = ''2024-01-02T00:00:00Z'',
             reason = ''Max retries (3) exceeded. Last error: boom''\<rparr>],
     config = Map.empty\<rparr>"

definition store_failed :: store where
  "store_failed = \<lparr>jobs = [\<lparr>job = job_f, locked_until = 0\<rparr>], dlq = [], config = Map.empty\<rparr>"

definition store_queue :: store where
  "store_queue =
     \<lparr>jobs = [\<lparr>job = job_f\<lparr>next_retry_at := Some ''2024-01-01T00:01:01Z''\<rparr>, locked_until = 0\<rparr>,
              \<lparr>job = job_k\<lparr>state := PENDING\<rparr>, locked_until = 0\<rparr>,
              \<lparr>job = job_j, locked_until = 0\<rparr>],
      dlq = [], config = Map.empty\<rparr>"

section \<open>Observations on a run and example worlds\<close>

text \<open>
  \<open>releases i w\<close> counts the calls of \<open>release_job_lock\<close> for id \<open>i\<close> in the trace.
  \<open>quiet i\<close> relates two states of \<open>_execute_job\<close> between which the job object has
  kept its id and no such call was made.
\<close>

definition releases :: "string \<Rightarrow> world \<Rightarrow> nat" where
  "releases i w = count_list (calls w) (ReleaseJobLock i)"

definition quiet :: "string \<Rightarrow> Job \<times> world \<Rightarrow> Job \<times> world \<Rightarrow> bool" where
  "quiet i before after =
     (job_id (fst after) = job_id (fst before) \<and>
      releases i (snd after) = releases i (snd before))"

text \<open>
  The configuration that \<open>_ensure_config\<close> writes, a rendering of the clock for the
  examples (the text of the whole seconds), and worlds around the job \<open>job_j\<close>:
  claimed by a worker (lock held until 400), freshly enqueued, and these with a database
  that raises on the next storage call, or on the second or third one.
\<close>

definition default_config :: "string \<rightharpoonup> int" where
  "default_config = [''max_retries'' \<mapsto> 3, ''backoff_base'' \<mapsto> 2, ''backoff_max_seconds'' \<mapsto> 600]"

definition stamp :: "real \<Rightarrow> string" where
  "stamp t = ''t'' @ str_int \<lfloor>t\<rfloor>"

definition world_claimed :: world where
  "world_claimed =
     \<lparr>db = \<lparr>jobs = [\<lparr>job = job_j, locked_until = 400\<rparr>], dlq = [], config = default_config\<rparr>,
      calls = [], faults = []\<rparr>"

definition world_fresh :: world where
  "world_fresh =
     \<lparr>db = \<lparr>jobs = [\<lparr>job = job_j, locked_until = 0\<rparr>], dlq = [], config = default_config\<rparr>,
      calls = [], faults = []\<rparr>"

definition world_faulty :: world where
  "world_faulty = world_claimed\<lparr>faults := [Some ''database is locked'']\<rparr>"

definition world_outage :: world where
  "world_outage = world_fresh\<lparr>faults := [Some ''database is locked'']\<rparr>"

definition world_outage_ready :: world where
  "world_outage_ready = world_fresh\<lparr>faults := [None, Some ''database is locked'']\<rparr>"

definition world_outage_lock :: world where
  "world_outage_lock = world_fresh\<lparr>faults := [None, None, Some ''database is locked'']\<rparr>"

text \<open>
  A reader for the timestamp that the first example cycle writes as \<open>next_retry_at\<close>
  (clock 101 plus a delay of 1).
\<close>

definition unstamp :: "string \<Rightarrow> real option" where
  "unstamp t = (if t = stamp 102 then Some 102 else None)"

definition cycle_fail1 :: cycle where
  "cycle_fail1 = \<lparr>stop = False, t_poll = 100, t_done = 101, result = Exit 1 ''boom'' []\<rparr>"

definition cycle_fail2 :: cycle where
  "cycle_fail2 = \<lparr>stop = False, t_poll = 200, t_done = 201, result = Exit 1 ''boom'' []\<rparr>"

section \<open>Lookups\<close>

lemma find_app:
  "find P (xs @ ys) = (case find P xs of None \<Rightarrow> find P ys | Some x \<Rightarrow> Some x)"
  by (induction xs) auto

lemma find_filter_neg: "find P (filter (\<lambda>x. \<not> P x) xs) = None"
  by (simp add: find_None_iff)

lemma find_Some_mem: "find P xs = Some x \<Longrightarrow> P x \<and> x \<in> set xs"
  by (induction xs) (auto split: if_splits)

lemma row_id_lock [simp]: "row_id (r\<lparr>locked_until := t\<rparr>) = row_id r"
  by (simp add: row_id_def)

lemma find_map_lock:
  "find (\<lambda>r. row_id r = k) (map (\<lambda>r. if row_id r = i then r\<lparr>locked_until := t\<rparr> else r) rs) =
   map_option (\<lambda>r. if row_id r = i then r\<lparr>locked_until := t\<rparr> else r) (find (\<lambda>r. row_id r = k) rs)"
  by (induction rs) auto

lemma select_row_set_lock:
  "select_row k (set_lock i t s) =
   map_option (\<lambda>r. if row_id r = i then r\<lparr>locked_until := t\<rparr> else r) (select_row k s)"
  by (simp add: select_row_def set_lock_def find_map_lock)

lemma select_row_id: "select_row i s = Some r \<Longrightarrow> row_id r = i"
  by (auto simp: select_row_def dest: find_Some_mem)

lemma jobs_set_lock: "map job (jobs (set_lock i t s)) = map job (jobs s)"
  by (simp add: set_lock_def comp_def)

lemma set_lock_frame: "dlq (set_lock i t s) = dlq s" "config (set_lock i t s) = config s"
  by (simp_all add: set_lock_def)

lemma select_row_set_lock_other:
  "k \<noteq> i \<Longrightarrow> select_row k (set_lock i t s) = select_row k s"
  by (cases "select_row k s") (auto simp: select_row_set_lock dest: select_row_id)

lemma select_row_set_lock_same:
  "select_row i s = Some r \<Longrightarrow> select_row i (set_lock i t s) = Some (r\<lparr>locked_until := t\<rparr>)"
  by (auto simp: select_row_set_lock dest: select_row_id)

section \<open>Lock acquisition\<close>

text \<open>
  Claim C1, as the code has it. \<open>acquire_job_lock\<close> returns true exactly when the id has
  a row in the live table and the lock column of that row is strictly before the
  caller's clock (the unlocked value 0 is before every positive clock). It then sets the
  lock column of that row to \<open>now + duration\<close> and changes nothing else: the job columns,
  the other rows, the dead-letter table and the configuration stay as they were. When it
  returns false the store is unchanged.
\<close>

theorem acquire_job_lock_strict:
  assumes "acquire_job_lock now duration i s = (b, s')"
  shows "(b \<longleftrightarrow> (\<exists>r. select_row i s = Some r \<and> locked_until r < now)) \<and>
         (b \<longrightarrow> acquire_select i s' = Some (now + duration) \<and>
                map job (jobs s') = map job (jobs s) \<and> dlq s' = dlq s \<and> config s' = config s \<and>
                (\<forall>k. k \<noteq> i \<longrightarrow> select_row k s' = select_row k s)) \<and>
         (\<not> b \<longrightarrow> s' = s)"
proof (cases "select_row i s")
  case None
  with assms show ?thesis
    by (simp add: acquire_job_lock_def acquire_update_def acquire_select_def)
next
  case (Some r)
  show ?thesis
  proof (cases "locked_until r < now")
    case True
    with Some assms have b: "b" and s': "s' = set_lock i (now + duration) s"
      by (simp_all add: acquire_job_lock_def acquire_update_def acquire_select_def)
    have "acquire_select i s' = Some (now + duration)"
      by (simp add: s' acquire_select_def select_row_set_lock_same [OF Some])
    with b Some True show ?thesis
      by (simp add: s' jobs_set_lock set_lock_frame select_row_set_lock_other)
  next
    case False
    with Some assms show ?thesis
      by (simp add: acquire_job_lock_def acquire_update_def acquire_select_def)
  qed
qed

theorem acquire_job_lock_strict_witness:
  "acquire_job_lock 11 300 ''j'' store_locked = (True, set_lock ''j'' 311 store_locked) \<and>
   acquire_select ''j'' (set_lock ''j'' 311 store_locked) = Some 311"
proof -
  have run: "acquire_job_lock 11 300 ''j'' store_locked = (True, set_lock ''j'' 311 store_locked)"
    by (simp add: acquire_job_lock_def acquire_update_def acquire_select_def select_row_def
        store_locked_def row_id_def job_j_def)
  from acquire_job_lock_strict [OF run] run show ?thesis by simp
qed

text \<open>
  At a clock equal to the stored expiry, the lock has expiry \<open>\<le> now\<close> and the call fails.
\<close>

theorem acquire_at_expiry_counterexample:
  "acquire_select ''j'' store_locked = Some 10 \<and> (10::real) \<le> 10 \<and>
   acquire_job_lock 10 300 ''j'' store_locked = (False, store_locked)"
  by (simp add: acquire_job_lock_def acquire_update_def acquire_select_def select_row_def
      store_locked_def row_id_def job_j_def)

text \<open>
  One caller that takes both its steps in a row is \<open>acquire_job_lock\<close>, and a second
  caller that starts after the first has returned is refused.
\<close>

lemma interleave_sequential:
  "interleave now1 now2 d i [First, First] (At_select, p2, s) =
     (Returned (fst (acquire_job_lock now1 d i s)), p2, snd (acquire_job_lock now1 d i s))"
  by (simp add: acquire_job_lock_def split: prod.splits)

lemma acquire_twice_sequential:
  "interleave 100 100 300 ''j'' [First, First, Second, Second] (At_select, At_select, store_locked) =
     (Returned True, Returned False, set_lock ''j'' 400 store_locked)"
  by (simp add: acquire_select_def acquire_update_def select_row_def store_locked_def row_id_def
      job_j_def set_lock_def)

text \<open>
  Claim C2 asks that of concurrent calls of \<open>acquire_job_lock\<close> on one id at most one
  succeeds. With both callers reading before either writes, both calls return true: each
  has fetched the expired value 10, compares it with its clock 100, and writes.
\<close>

theorem acquire_job_lock_race:
  "interleave 100 100 300 ''j'' [First, Second, First, Second] (At_select, At_select, store_locked) =
     (Returned True, Returned True, set_lock ''j'' 400 store_locked)"
  by (simp add: acquire_select_def acquire_update_def select_row_def store_locked_def row_id_def
      job_j_def set_lock_def)

section \<open>Upsert\<close>

text \<open>
  Claim C10. After \<open>add_job\<close> the row of the job's id holds the job as given, with the
  new \<open>updated_at\<close>, with \<open>next_retry_at\<close> absent and with the lock column 0, whatever the
  row held before and whatever \<open>next_retry_at\<close> the job object carries. So a lock held on
  that id is gone: any caller with a positive clock acquires it.
\<close>

theorem add_job_resets_lock:
  "select_row (job_id j) (snd (add_job ts j s)) =
     Some \<lparr>job = j\<lparr>updated_at := ts, next_retry_at := None\<rparr>, locked_until = 0\<rparr> \<and>
   (0 < now \<longrightarrow> fst (acquire_job_lock now duration (job_id j) (snd (add_job ts j s))))"
proof -
  have sel: "select_row (job_id j) (snd (add_job ts j s)) =
     Some \<lparr>job = j\<lparr>updated_at := ts, next_retry_at := None\<rparr>, locked_until = 0\<rparr>"
    by (simp add: select_row_def add_job_def Let_def find_app find_filter_neg row_id_def
        find_None_iff)
  then show ?thesis
    by (simp add: acquire_job_lock_def acquire_select_def acquire_update_def)
qed

theorem add_job_resets_lock_witness:
  "acquire_select ''j'' store_locked = Some 10 \<and> (0::real) < 5 \<and>
   fst (acquire_job_lock 5 300 ''j'' (snd (add_job ''2024-01-03T00:00:00Z'' job_j store_locked)))"
proof -
  have held: "acquire_select ''j'' store_locked = Some 10"
    by (simp add: acquire_select_def select_row_def store_locked_def row_id_def job_j_def)
  have jid: "job_id job_j = ''j''"
    by (simp add: job_j_def)
  from add_job_resets_lock [of job_j "''2024-01-03T00:00:00Z''" store_locked 5 300] held jid
  show ?thesis by simp
qed

section \<open>Live table and dead-letter table\<close>

lemma live_ids_set_lock [simp]: "live_ids (set_lock i t s) = live_ids s"
  by (auto simp: live_ids_def set_lock_def image_iff)

lemma dead_ids_set_lock [simp]: "dead_ids (set_lock i t s) = dead_ids s"
  by (simp add: dead_ids_def set_lock_def)

lemma live_ids_update_job [simp]: "live_ids (snd (update_job ts j s)) = live_ids s"
  by (force simp: live_ids_def update_job_def Let_def row_id_def image_iff)

lemma dead_ids_update_job [simp]: "dead_ids (snd (update_job ts j s)) = dead_ids s"
  by (simp add: dead_ids_def update_job_def Let_def)

lemma live_ids_clear [simp]: "live_ids (clear_expired_locks now s) = live_ids s"
  by (force simp: live_ids_def clear_expired_locks_def image_iff)

lemma dead_ids_clear [simp]: "dead_ids (clear_expired_locks now s) = dead_ids s"
  by (simp add: dead_ids_def clear_expired_locks_def)

lemma ids_acquire [simp]:
  "live_ids (snd (acquire_job_lock now d i s)) = live_ids s"
  "dead_ids (snd (acquire_job_lock now d i s)) = dead_ids s"
  by (simp_all add: acquire_job_lock_def acquire_update_def split: option.splits)

lemma ids_delete_job [simp]:
  "live_ids (delete_job i s) = live_ids s - {i}" "dead_ids (delete_job i s) = dead_ids s"
  by (auto simp: live_ids_def dead_ids_def delete_job_def)

lemma ids_remove_from_dlq [simp]:
  "live_ids (remove_from_dlq i s) = live_ids s" "dead_ids (remove_from_dlq i s) = dead_ids s - {i}"
  by (auto simp: live_ids_def dead_ids_def remove_from_dlq_def)

lemma ids_set_config [simp]:
  "live_ids (set_config k v s) = live_ids s" "dead_ids (set_config k v s) = dead_ids s"
  by (simp_all add: live_ids_def dead_ids_def set_config_def)

lemma ids_add_job [simp]:
  "live_ids (snd (add_job ts j s)) = insert (job_id j) (live_ids s)"
  "dead_ids (snd (add_job ts j s)) = dead_ids s"
  by (auto simp: live_ids_def dead_ids_def add_job_def Let_def row_id_def)

lemma ids_move_to_dlq:
  "move_to_dlq ts j why s = Inr s' \<Longrightarrow> live_ids s' = live_ids s - {job_id j}"
  "move_to_dlq ts j why s = Inr s' \<Longrightarrow> dead_ids s' = insert (job_id j) (dead_ids s)"
  by (auto simp: live_ids_def dead_ids_def move_to_dlq_def split: if_splits)

lemma get_job_None_iff: "get_job i s = None \<longleftrightarrow> i \<notin> live_ids s"
  by (auto simp: get_job_def select_row_def live_ids_def find_None_iff
      split: option.splits dest!: find_Some_mem)

lemma get_dlq_job_None_iff: "get_dlq_job i s = None \<longleftrightarrow> i \<notin> dead_ids s"
  by (auto simp: get_dlq_job_def dead_ids_def find_None_iff
      split: option.splits dest!: find_Some_mem)

lemma get_dlq_job_move:
  "move_to_dlq ts j why s = Inr s' \<Longrightarrow> get_dlq_job (job_id j) s' = Some j"
proof -
  assume m: "move_to_dlq ts j why s = Inr s'"
  then have fresh: "find (\<lambda>d. dlq_id d = job_id j) (dlq s) = None"
    by (auto simp: move_to_dlq_def find_None_iff image_iff split: if_splits)
  from m show ?thesis
    by (auto simp: move_to_dlq_def get_dlq_job_def find_app fresh split: if_splits)
qed

lemma get_dlq_job_keyed:
  "dlq_keyed s \<Longrightarrow> get_dlq_job i s = Some j \<Longrightarrow> job_id j = i \<and> i \<in> dead_ids s"
  by (auto simp: dlq_keyed_def get_dlq_job_def dead_ids_def list_all_iff
      split: option.splits dest!: find_Some_mem)

lemma dlq_retry_exclusive:
  assumes "exclusive s" "dlq_keyed s" "dlq_retry ts i s = Some s'"
  shows "exclusive s' \<and> i \<in> live_ids s' \<and> i \<notin> dead_ids s'"
proof -
  from assms(3) obtain j where j: "get_dlq_job i s = Some j"
    and s': "s' = remove_from_dlq i (snd (add_job ts (dlq_retry_reset j) s))"
    by (auto simp: dlq_retry_def dlq_retry_add_def split: option.splits)
  from get_dlq_job_keyed [OF assms(2) j] have "job_id (dlq_retry_reset j) = i"
    by (simp add: dlq_retry_reset_def)
  with assms(1) show ?thesis
    by (auto simp: s' exclusive_def)
qed

text \<open>\<open>dlq_keyed\<close> is kept by every operation that writes.\<close>

lemma dlq_keyed_preserved:
  assumes "dlq_keyed s"
  shows "move_to_dlq ts j why s = Inr s' \<Longrightarrow> dlq_keyed s'"
    and "dlq_keyed (snd (add_job ts j s))" and "dlq_keyed (snd (update_job ts j s))"
    and "dlq_keyed (delete_job i s)" and "dlq_keyed (remove_from_dlq i s)"
    and "dlq_keyed (set_lock i t s)" and "dlq_keyed (clear_expired_locks now s)"
    and "dlq_keyed (set_config k v s)"
  using assms
  by (auto simp: dlq_keyed_def move_to_dlq_def add_job_def update_job_def delete_job_def
      remove_from_dlq_def set_lock_def clear_expired_locks_def set_config_def Let_def
      list_all_iff split: if_splits)

text \<open>
  Claim C4, as the code has it. \<open>move_to_dlq\<close> writes the dead-letter row and deletes the
  live row in one transaction: when it succeeds the id is in the dead-letter table only.
  It keeps the two tables disjoint, as do delete, removal from the dead-letter table,
  update, the lock operations, the configuration write and a completed dead-letter
  requeue. \<open>add_job\<close> keeps them disjoint for an id that is not dead-lettered; it does not
  look at the dead-letter table.
\<close>

theorem dead_letter_exclusion:
  assumes "exclusive s"
  shows "(move_to_dlq ts j why s = Inr s' \<longrightarrow>
            exclusive s' \<and> get_job (job_id j) s' = None \<and> get_dlq_job (job_id j) s' = Some j) \<and>
         exclusive (delete_job i s) \<and> exclusive (remove_from_dlq i s) \<and>
         exclusive (snd (update_job ts j s)) \<and> exclusive (snd (acquire_job_lock now d i s)) \<and>
         exclusive (release_job_lock i s) \<and> exclusive (clear_expired_locks now s) \<and>
         exclusive (set_config k v s) \<and>
         (dlq_keyed s \<and> dlq_retry ts i s = Some s'' \<longrightarrow> exclusive s'') \<and>
         (job_id j \<notin> dead_ids s \<longrightarrow> exclusive (snd (add_job ts j s)))"
proof -
  have "exclusive s' \<and> get_job (job_id j) s' = None \<and> get_dlq_job (job_id j) s' = Some j"
    if m: "move_to_dlq ts j why s = Inr s'"
    using assms ids_move_to_dlq [OF m] get_dlq_job_move [OF m]
    by (auto simp: exclusive_def get_job_None_iff move_to_dlq_def dead_ids_def split: if_splits)
  moreover have "exclusive s''" if "dlq_keyed s \<and> dlq_retry ts i s = Some s''"
    using dlq_retry_exclusive [of s ts i s''] assms that by simp
  moreover have "exclusive (delete_job i s)" "exclusive (remove_from_dlq i s)"
    "exclusive (snd (update_job ts j s))" "exclusive (snd (acquire_job_lock now d i s))"
    "exclusive (release_job_lock i s)" "exclusive (clear_expired_locks now s)"
    "exclusive (set_config k v s)"
    using assms by (auto simp: exclusive_def release_job_lock_def)
  moreover have "exclusive (snd (add_job ts j s))" if "job_id j \<notin> dead_ids s"
    using assms that by (auto simp: exclusive_def)
  ultimately show ?thesis by blast
qed

theorem dead_letter_exclusion_witness:
  "exclusive store_mixed \<and> dlq_keyed store_mixed \<and> ''j'' \<notin> dead_ids store_mixed \<and>
   (case move_to_dlq ''2024-01-03T00:00:00Z'' job_j ''boom'' store_mixed of
      Inl e \<Rightarrow> False | Inr s' \<Rightarrow> exclusive s' \<and> get_job ''j'' s' = None) \<and>
   (case dlq_retry ''2024-01-03T00:00:00Z'' ''k'' store_mixed of
      None \<Rightarrow> False | Some s' \<Rightarrow> exclusive s') \<and>
   exclusive (snd (add_job ''2024-01-03T00:00:00Z'' job_j store_mixed))"
proof -
  have ex: "exclusive store_mixed"
    by (simp add: exclusive_def live_ids_def dead_ids_def store_mixed_def row_id_def job_j_def)
  have keyed: "dlq_keyed store_mixed"
    by (simp add: dlq_keyed_def store_mixed_def job_k_def)
  have fresh: "''j'' \<notin> dead_ids store_mixed"
    by (simp add: dead_ids_def store_mixed_def)
  obtain s1 where s1: "move_to_dlq ''2024-01-03T00:00:00Z'' job_j ''boom'' store_mixed = Inr s1"
    by (simp add: move_to_dlq_def store_mixed_def job_j_def)
  obtain s2 where s2: "dlq_retry ''2024-01-03T00:00:00Z'' ''k'' store_mixed = Some s2"
    by (simp add: dlq_retry_def dlq_retry_add_def get_dlq_job_def store_mixed_def)
  have jid: "job_id job_j = ''j''" by (simp add: job_j_def)
  from dead_letter_exclusion [OF ex, where ts = "''2024-01-03T00:00:00Z''" and j = job_j
      and why = "''boom''" and s' = s1 and i = "''k''" and s'' = s2]
    ex keyed fresh s1 s2 jid
  show ?thesis by simp
qed

text \<open>
  Enqueueing an id that is dead-lettered puts it in both tables, and so does the first
  step of the requeue, before the dead-letter row is removed.
\<close>

theorem enqueue_dead_id_counterexample:
  "exclusive store_dead \<and> \<not> exclusive (snd (add_job ''2024-01-03T00:00:00Z'' job_j store_dead)) \<and>
   map_option exclusive (dlq_retry_add ''2024-01-03T00:00:00Z'' ''j'' store_dead) = Some False"
  by (simp add: exclusive_def live_ids_def dead_ids_def store_dead_def add_job_def Let_def
      job_j_def row_id_def dlq_retry_add_def get_dlq_job_def dlq_retry_reset_def)

section \<open>Retry delay\<close>

text \<open>
  Claim C5, as the code has it. The delay never exceeds \<open>backoff_max_seconds\<close>. For a
  base of at least 1 and attempts counted from 1 it is
  \<open>min (base ^ (attempts - 1)) backoff_max_seconds\<close> and does not decrease when attempts
  grows. With base 2 the delay at attempts 1 is 1 when \<open>backoff_max_seconds\<close> is at
  least 1.
\<close>

theorem backoff_delay_monotone:
  "(backoff_delay b bmax n = Inr d \<longrightarrow> d \<le> real_of_int bmax) \<and>
   (1 \<le> b \<and> 1 \<le> n \<and> n \<le> m \<longrightarrow>
      backoff_delay b bmax n = Inr (real_of_int (min (b ^ nat (n - 1)) bmax)) \<and>
      backoff_delay b bmax m = Inr (real_of_int (min (b ^ nat (m - 1)) bmax)) \<and>
      min (b ^ nat (n - 1)) bmax \<le> min (b ^ nat (m - 1)) bmax) \<and>
   (1 \<le> bmax \<longrightarrow> backoff_delay 2 bmax 1 = Inr 1)"
proof -
  have bound: "d \<le> real_of_int bmax" if "backoff_delay b bmax n = Inr d"
    using that by (auto simp: backoff_delay_def split: if_splits)
  have mono: "min (b ^ nat (n - 1)) bmax \<le> min (b ^ nat (m - 1)) bmax"
    if "1 \<le> b" "1 \<le> n" "n \<le> m"
  proof -
    from that have "nat (n - 1) \<le> nat (m - 1)" by simp
    with that(1) have "b ^ nat (n - 1) \<le> b ^ nat (m - 1)"
      by (simp add: power_increasing)
    then show ?thesis by (simp add: min_le_iff_disj)
  qed
  have one: "backoff_delay 2 bmax 1 = Inr 1" if "1 \<le> bmax"
    using that by (simp add: backoff_delay_def)
  from bound mono one show ?thesis
    by (auto simp: backoff_delay_def)
qed

theorem backoff_delay_monotone_witness:
  "backoff_delay 2 600 3 = Inr 4 \<and> backoff_delay 2 600 11 = Inr 600 \<and>
   backoff_delay 2 600 1 = Inr 1 \<and> (4::real) \<le> 600"
  using backoff_delay_monotone [of 2 600 3 4 11]
  by (simp add: backoff_delay_def)

text \<open>
  With base 0 the delay falls from 1 at attempts 1 to 0 at attempts 2; with
  \<open>backoff_max_seconds\<close> 0 and base 2 the delay at attempts 1 is 0.
\<close>

theorem backoff_delay_counterexample:
  "backoff_delay 0 600 1 = Inr 1 \<and> backoff_delay 0 600 2 = Inr 0 \<and> backoff_delay 2 0 1 = Inr 0"
  by (simp add: backoff_delay_def)

section \<open>Ready jobs\<close>

lemma mset_map_filter_job:
  "mset (map job (filter (\<lambda>r. P (job r)) rs)) = mset (filter P (map job rs))"
  by (induction rs) auto

lemma failed_ready_iff:
  "(state (job r) = FAILED \<and> next_retry_at (job r) \<noteq> None) \<and> retry_due parse now r
     \<longleftrightarrow> failed_ready parse now (job r)"
  by (auto simp: failed_ready_def retry_due_def parse_next_retry_def split: option.splits)

text \<open>
  Claim C6, as the code has it. \<open>get_ready_jobs\<close> returns the pending jobs, in ascending
  order of \<open>created_at\<close>, followed by the failed jobs whose \<open>next_retry_at\<close> is present
  and is empty, unparseable or not after \<open>now\<close>; each such job is returned once and
  nothing else is. A failed job without \<open>next_retry_at\<close> is not returned.
\<close>

theorem get_ready_jobs_contents:
  "\<exists>ps fs. get_ready_jobs parse now s = ps @ fs \<and>
      sorted (map created_at ps) \<and>
      mset ps = mset (filter (\<lambda>j. state j = PENDING) (map job (jobs s))) \<and>
      mset fs = mset (filter (failed_ready parse now) (map job (jobs s)))"
proof -
  let ?ps = "map job (sort_key (\<lambda>r. created_at (job r)) (filter (\<lambda>r. state (job r) = PENDING) (jobs s)))"
  let ?fs = "map job (filter (retry_due parse now)
               (filter (\<lambda>r. state (job r) = FAILED \<and> next_retry_at (job r) \<noteq> None) (jobs s)))"
  have split: "get_ready_jobs parse now s = ?ps @ ?fs"
    by (simp add: get_ready_jobs_def Let_def)
  have "map created_at ?ps =
        map (\<lambda>r. created_at (job r)) (sort_key (\<lambda>r. created_at (job r)) (filter (\<lambda>r. state (job r) = PENDING) (jobs s)))"
    by (simp add: comp_def)
  then have srt: "sorted (map created_at ?ps)"
    by (simp only: sorted_sort_key)
  have "mset ?ps = mset (map job (filter (\<lambda>r. state (job r) = PENDING) (jobs s)))"
    by simp
  then have pm: "mset ?ps = mset (filter (\<lambda>j. state j = PENDING) (map job (jobs s)))"
    using mset_map_filter_job [of "\<lambda>j. state j = PENDING" "jobs s"] by simp
  have "filter (retry_due parse now)
          (filter (\<lambda>r. state (job r) = FAILED \<and> next_retry_at (job r) \<noteq> None) (jobs s)) =
        filter (\<lambda>r. failed_ready parse now (job r)) (jobs s)"
    by (auto simp: failed_ready_iff [symmetric] intro!: filter_cong)
  then have "?fs = map job (filter (\<lambda>r. failed_ready parse now (job r)) (jobs s))"
    by (simp only:)
  then have fm: "mset ?fs = mset (filter (failed_ready parse now) (map job (jobs s)))"
    using mset_map_filter_job [of "failed_ready parse now" "jobs s"] by simp
  from split srt pm fm show ?thesis by blast
qed

theorem get_ready_jobs_contents_witness:
  "map job_id (get_ready_jobs (\<lambda>t. None) 100 store_queue) = [''j'', ''k'', ''f'']"
  using get_ready_jobs_contents [of "\<lambda>t. None" 100 store_queue]
  by (simp add: get_ready_jobs_def store_queue_def job_f_def job_j_def job_k_def
      retry_due_def parse_next_retry_def)

text \<open>A failed job with no \<open>next_retry_at\<close> is in the live table and is not returned.\<close>

theorem failed_without_retry_time_counterexample:
  "get_job ''f'' store_failed = Some job_f \<and> state job_f = FAILED \<and> next_retry_at job_f = None \<and>
   get_ready_jobs (\<lambda>t. None) 100 store_failed = []"
  by (simp add: get_ready_jobs_def store_failed_def job_f_def get_job_def select_row_def row_id_def)

section \<open>The failure decision\<close>


lemmas store_defs =
  select_row_def row_id_def get_job_def get_dlq_job_def get_ready_jobs_def retry_due_def
  parse_next_retry_def update_job_def move_to_dlq_def get_config_def acquire_select_def
  set_lock_def acquire_update_def acquire_job_lock_def release_job_lock_def
  clear_expired_locks_def

lemmas worker_defs =
  seq_def raise_def try_except_def try_finally_def storage_call_def update_job_w_def
  move_to_dlq_w_def get_config_w_def release_job_lock_w_def assign_def dict_get_def
  check_and_reschedule_failed_job_def handle_job_failure_def run_command_def execute_job_def
  get_next_job_def poll_cycle_def run_def print_def backoff_delay_def Let_def

text \<open>
  Claim C3 asks that a job in the live table never has more attempts than its own
  \<open>max_retries\<close>, and that a failure sends it to the dead-letter table exactly when
  attempts reaches that number. The handler compares attempts with the \<open>max_retries\<close>
  of the configuration instead. A job enqueued with \<open>max_retries = 1\<close> under the default
  configuration fails: attempts is 1, and the job stays in the live table, failed, with
  no dead-letter row. Once its retry time has passed it fails again: it is still in the
  live table, failed, now with attempts 2.
\<close>

theorem per_job_ceiling_ignored:
  "map_option attempts (get_job ''j'' (db (snd (run unstamp stamp [cycle_fail1] world_fresh)))) = Some 1 \<and>
   map_option max_retries (get_job ''j'' (db (snd (run unstamp stamp [cycle_fail1] world_fresh)))) = Some 1 \<and>
   map_option state (get_job ''j'' (db (snd (run unstamp stamp [cycle_fail1] world_fresh)))) = Some FAILED \<and>
   get_dlq_job ''j'' (db (snd (run unstamp stamp [cycle_fail1] world_fresh))) = None \<and>
   map_option attempts (get_job ''j'' (db (snd (run unstamp stamp [cycle_fail1, cycle_fail2] world_fresh)))) = Some 2 \<and>
   map_option max_retries (get_job ''j'' (db (snd (run unstamp stamp [cycle_fail1, cycle_fail2] world_fresh)))) = Some 1 \<and>
   map_option state (get_job ''j'' (db (snd (run unstamp stamp [cycle_fail1, cycle_fail2] world_fresh)))) = Some FAILED \<and>
   get_dlq_job ''j'' (db (snd (run unstamp stamp [cycle_fail1, cycle_fail2] world_fresh))) = None"
  by (simp add: worker_defs store_defs world_fresh_def job_j_def default_config_def
      cycle_fail1_def cycle_fail2_def unstamp_def stamp_def)

lemma storage_call_calls:
  "storage_call c method w = (r, w') \<Longrightarrow> calls w' = calls w @ [c]"
  by (auto simp: storage_call_def Let_def split: list.splits option.splits sum.splits prod.splits)






section \<open>Release of the lock\<close>

lemma quiet_refl: "quiet i s s"
  by (simp add: quiet_def)

lemma quiet_trans: "quiet i a b \<Longrightarrow> quiet i b c \<Longrightarrow> quiet i a c"
  by (simp add: quiet_def)

lemma quiet_update_job_w: "update_job_w ts s = (r, s') \<Longrightarrow> quiet i s s'"
  by (cases s) (auto simp: update_job_w_def quiet_def releases_def split: prod.splits
      dest!: storage_call_calls)

lemma quiet_move_to_dlq_w: "move_to_dlq_w ts why s = (r, s') \<Longrightarrow> quiet i s s'"
  by (cases s) (auto simp: move_to_dlq_w_def quiet_def releases_def split: prod.splits
      dest!: storage_call_calls)

lemma quiet_get_config_w: "get_config_w s = (r, s') \<Longrightarrow> quiet i s s'"
  by (cases s) (auto simp: get_config_w_def quiet_def releases_def split: prod.splits
      dest!: storage_call_calls)

lemma quiet_handle_job_failure:
  assumes run: "handle_job_failure fmt now msg s = (r, s')"
  shows "quiet i s s'"
proof -
  obtain rc s1 where c: "get_config_w s = (rc, s1)"
    by (cases "get_config_w s")
  have q0: "quiet i s s1"
    using c by (rule quiet_get_config_w)
  show ?thesis
  proof (cases rc)
    case (Inl e)
    with run c have "s' = s1"
      by (simp add: handle_job_failure_def seq_def)
    with q0 show ?thesis by simp
  next
    case (Inr cfg)
    obtain j w where s1: "s1 = (j, w)" by (cases s1)
    show ?thesis
    proof (cases "attempts j < dict_get cfg ''max_retries'' 3")
      case True
      show ?thesis
      proof (cases "backoff_delay (dict_get cfg ''backoff_base'' 2)
                      (dict_get cfg ''backoff_max_seconds'' 600) (attempts j)")
        case (Inl e)
        with run c Inr s1 True have "s' = s1"
          by (simp add: handle_job_failure_def seq_def Let_def raise_def)
        with q0 show ?thesis by simp
      next
        case dl: (Inr delay)
        let ?j2 = "j\<lparr>state := FAILED, error_message := Some msg,
                     next_retry_at := Some (fmt (now + delay))\<rparr>"
        obtain r3 s3 where u: "update_job_w (fmt now) (?j2, w) = (r3, s3)"
          by (cases "update_job_w (fmt now) (?j2, w)")
        have "quiet i (?j2, w) s3"
          using u by (rule quiet_update_job_w)
        then have q1: "quiet i s1 s3"
          by (simp add: quiet_def s1)
        from run c Inr s1 True dl u have "s' = s3"
          by (cases r3) (simp_all add: handle_job_failure_def seq_def Let_def assign_def
              check_and_reschedule_failed_job_def)
        with q0 q1 show ?thesis by (auto intro: quiet_trans)
      qed
    next
      case False
      let ?j2 = "j\<lparr>state := DEAD, error_message := Some msg\<rparr>"
      let ?why = "''Max retries ('' @ str_int (dict_get cfg ''max_retries'' 3) @
                    '') exceeded. Last error: '' @ msg"
      obtain r3 s3 where m: "move_to_dlq_w (fmt now) ?why (?j2, w) = (r3, s3)"
        by (cases "move_to_dlq_w (fmt now) ?why (?j2, w)")
      have "quiet i (?j2, w) s3"
        using m by (rule quiet_move_to_dlq_w)
      then have q1: "quiet i s1 s3"
        by (simp add: quiet_def s1)
      from run c Inr s1 False m have "s' = s3"
        by (simp add: handle_job_failure_def seq_def Let_def assign_def)
      with q0 q1 show ?thesis by (auto intro: quiet_trans)
    qed
  qed
qed

lemma quiet_run_command:
  assumes run: "run_command fmt t1 oc s = (r, s')"
  shows "quiet i s s'"
proof (cases oc)
  case (Exit rc err out)
  show ?thesis
  proof (cases "rc = 0")
    case True
    obtain j w where s: "s = (j, w)" by (cases s)
    let ?j2 = "j\<lparr>state := COMPLETED, error_message := None\<rparr>"
    obtain r3 s3 where u: "update_job_w (fmt t1) (?j2, w) = (r3, s3)"
      by (cases "update_job_w (fmt t1) (?j2, w)")
    have "quiet i (?j2, w) s3"
      using u by (rule quiet_update_job_w)
    then have q1: "quiet i s s3"
      by (simp add: quiet_def s)
    from run Exit True s u have "s' = s3"
      by (simp add: run_command_def seq_def assign_def)
    with q1 show ?thesis by simp
  next
    case False
    with Exit run have "handle_job_failure fmt t1 (if err \<noteq> [] then err else out) s = (r, s')"
      by (simp add: run_command_def)
    then show ?thesis by (rule quiet_handle_job_failure)
  qed
next
  case Timeout
  with run show ?thesis by (simp add: run_command_def raise_def quiet_def)
next
  case (Launch m)
  with run show ?thesis by (simp add: run_command_def raise_def quiet_def)
qed

lemma quiet_guarded:
  assumes run: "try_except (run_command fmt t1 oc)
             (\<lambda>e. case e of
                     TimeoutExpired \<Rightarrow> handle_job_failure fmt t1 ''Job execution timeout''
                   | other \<Rightarrow> handle_job_failure fmt t1 (str_error e)) s = (r, s')"
  shows "quiet i s s'"
proof -
  obtain r1 s1 where b: "run_command fmt t1 oc s = (r1, s1)"
    by (cases "run_command fmt t1 oc s")
  have q0: "quiet i s s1"
    using b by (rule quiet_run_command)
  show ?thesis
  proof (cases r1)
    case (Inr u)
    with run b have "s' = s1" by (simp add: try_except_def)
    with q0 show ?thesis by simp
  next
    case (Inl e)
    with run b have "\<exists>msg. handle_job_failure fmt t1 msg s1 = (r, s')"
      by (cases e) (auto simp: try_except_def)
    then obtain msg where "handle_job_failure fmt t1 msg s1 = (r, s')" ..
    then have "quiet i s1 s'" by (rule quiet_handle_job_failure)
    with q0 show ?thesis by (rule quiet_trans)
  qed
qed

lemma release_job_lock_w_counts:
  "release_job_lock_w (j, w) = (r, (j', w')) \<Longrightarrow>
   releases (job_id j) w' = releases (job_id j) w + 1"
  by (auto simp: release_job_lock_w_def releases_def split: prod.splits dest!: storage_call_calls)

text \<open>
  When the first \<open>update_job\<close> of \<open>_execute_job\<close> goes through, the lock is released
  exactly once, whatever the outcome of the command and whatever the database does
  afterwards.
\<close>

lemma execute_job_releases_once:
  assumes first: "faults w = [] \<or> hd (faults w) = None"
    and run: "execute_job fmt t0 t1 oc (j, w) = (r, (j', w'))"
  shows "releases (job_id j) w' = releases (job_id j) w + 1"
proof -
  let ?j0 = "j\<lparr>state := PROCESSING, attempts := attempts j + 1\<rparr>"
  obtain r1 j1 w1 where u: "update_job_w (fmt t0) (?j0, w) = (r1, (j1, w1))"
    by (cases "update_job_w (fmt t0) (?j0, w)") auto
  from first u have ok: "r1 = Inr ()"
    by (cases "faults w") (auto simp: update_job_w_def storage_call_def split: prod.splits)
  from quiet_update_job_w [OF u, of "job_id j"]
  have q1: "job_id j1 = job_id j" "releases (job_id j) w1 = releases (job_id j) w"
    by (simp_all add: quiet_def)
  let ?guarded = "try_except (run_command fmt t1 oc)
             (\<lambda>e. case e of
                     TimeoutExpired \<Rightarrow> handle_job_failure fmt t1 ''Job execution timeout''
                   | other \<Rightarrow> handle_job_failure fmt t1 (str_error e))"
  obtain r2 j2 w2 where g: "?guarded (j1, w1) = (r2, (j2, w2))"
    by (cases "?guarded (j1, w1)") auto
  from quiet_guarded [OF g, of "job_id j"]
  have q2: "job_id j2 = job_id j1" "releases (job_id j) w2 = releases (job_id j) w1"
    by (simp_all add: quiet_def)
  obtain r3 j3 w3 where rel: "release_job_lock_w (j2, w2) = (r3, (j3, w3))"
    by (cases "release_job_lock_w (j2, w2)") auto
  from release_job_lock_w_counts [OF rel] q1 q2
  have q3: "releases (job_id j) w3 = releases (job_id j) w2 + 1"
    by simp
  from run u ok g rel have "w' = w3"
    by (cases r3) (simp_all add: execute_job_def seq_def assign_def try_finally_def)
  with q1 q2 q3 show ?thesis by simp
qed

text \<open>
  Claim C7 asks for exactly one release on every exit of \<open>_execute_job\<close>. The first
  \<open>update_job\<close> stands before the \<open>try\<close>: when the database raises there, the
  exception leaves \<open>_execute_job\<close>, \<open>release_job_lock\<close> has not been called and the
  row is still locked until 400.
\<close>

theorem execute_job_fault_before_try:
  "fst (execute_job stamp 100 101 (Exit 0 [] []) (job_j, world_faulty)) =
     Inl (StorageError ''database is locked'') \<and>
   releases ''j'' (snd (snd (execute_job stamp 100 101 (Exit 0 [] []) (job_j, world_faulty)))) = 0 \<and>
   acquire_select ''j'' (db (snd (snd (execute_job stamp 100 101 (Exit 0 [] []) (job_j, world_faulty))))) =
     Some 400"
  by (simp add: worker_defs store_defs world_faulty_def world_claimed_def job_j_def releases_def)

section \<open>The polling loop\<close>

lemma run_loop_append:
  "run_loop parse fmt (xs @ ys) w =
     (case run_loop parse fmt xs w of
        (Inr Polling, w') \<Rightarrow> run_loop parse fmt ys w'
      | other \<Rightarrow> other)"
proof (induction xs arbitrary: w)
  case Nil
  show ?case by simp
next
  case (Cons c cs)
  show ?case
  proof (cases "stop c")
    case True
    then show ?thesis by simp
  next
    case False
    obtain r w1 where p: "poll_cycle parse fmt c w = (r, w1)"
      by (cases "poll_cycle parse fmt c w")
    show ?thesis
    proof (cases r)
      case (Inl e)
      with False p show ?thesis by simp
    next
      case (Inr u)
      with False p Cons.IH [of w1] show ?thesis by simp
    qed
  qed
qed

lemma poll_cycle_first_fault:
  "faults w = Some m # rest \<Longrightarrow> fst (poll_cycle parse fmt c w) = Inl (StorageError m)"
  by (simp add: poll_cycle_def seq_def storage_call_def)

lemma poll_cycle_second_fault:
  "faults w = None # Some m # rest \<Longrightarrow> fst (poll_cycle parse fmt c w) = Inl (StorageError m)"
  by (simp add: poll_cycle_def get_next_job_def seq_def storage_call_def)

lemma poll_cycle_third_fault:
  assumes "faults w = None # None # Some m # rest"
    and "get_ready_jobs parse (t_poll c) (clear_expired_locks (t_poll c) (db w)) \<noteq> []"
  shows "fst (poll_cycle parse fmt c w) = Inl (StorageError m)"
proof -
  from assms(2) obtain j js where
    "get_ready_jobs parse (t_poll c) (clear_expired_locks (t_poll c) (db w)) = j # js"
    by (cases "get_ready_jobs parse (t_poll c) (clear_expired_locks (t_poll c) (db w))") auto
  with assms(1) show ?thesis
    by (simp add: poll_cycle_def get_next_job_def seq_def storage_call_def)
qed

text \<open>
  Claim C9, as the code has it. The \<open>try\<close> of \<open>run\<close> encloses the whole loop. An
  exception that leaves a poll cycle, at whichever turn, ends the loop: \<open>run\<close> prints
  the error and \<open>Stopped\<close>, and the cycles that would follow are not run. A database
  error raised by \<open>clear_expired_locks\<close> (the first storage call of a cycle), by
  \<open>get_ready_jobs\<close> (the second) or by \<open>acquire_job_lock\<close> on the first ready job
  (the third) is such an exception.
\<close>

theorem poll_error_stops_worker:
  assumes before: "run_loop parse fmt before (print PrintStarted w) = (Inr Polling, w1)"
    and running: "\<not> stop c"
  shows "(poll_cycle parse fmt c w1 = (Inl e, w2) \<longrightarrow>
            run parse fmt (before @ c # later) w =
              (Stopped, print PrintStopped (print (PrintError (str_error e)) w2))) \<and>
         (faults w1 = Some m # rest \<longrightarrow> fst (poll_cycle parse fmt c w1) = Inl (StorageError m)) \<and>
         (faults w1 = None # Some m # rest \<longrightarrow>
            fst (poll_cycle parse fmt c w1) = Inl (StorageError m)) \<and>
         (faults w1 = None # None # Some m # rest \<and>
          get_ready_jobs parse (t_poll c) (clear_expired_locks (t_poll c) (db w1)) \<noteq> [] \<longrightarrow>
            fst (poll_cycle parse fmt c w1) = Inl (StorageError m))"
proof -
  have "run parse fmt (before @ c # later) w =
          (Stopped, print PrintStopped (print (PrintError (str_error e)) w2))"
    if "poll_cycle parse fmt c w1 = (Inl e, w2)"
    using before running that by (simp add: run_def run_loop_append)
  then show ?thesis
    by (simp add: poll_cycle_first_fault poll_cycle_second_fault poll_cycle_third_fault)
qed

theorem poll_error_stops_worker_witness:
  "run unstamp stamp [cycle_fail1, cycle_fail2] world_outage =
     (Stopped, print PrintStopped (print (PrintError ''database is locked'')
        (print ClearExpiredLocks (print PrintStarted world_fresh)))) \<and>
   fst (run unstamp stamp [cycle_fail1, cycle_fail2] world_outage_ready) = Stopped \<and>
   fst (run unstamp stamp [cycle_fail1, cycle_fail2] world_outage_lock) = Stopped"
proof -
  have before: "run_loop unstamp stamp [] (print PrintStarted w) = (Inr Polling, print PrintStarted w)"
    for w by simp
  have running: "\<not> stop cycle_fail1"
    by (simp add: cycle_fail1_def)
  note stops = poll_error_stops_worker [OF before running, where later = "[cycle_fail2]"]
  have raised: "poll_cycle unstamp stamp cycle_fail1 (print PrintStarted world_outage) =
      (Inl (StorageError ''database is locked''), print ClearExpiredLocks (print PrintStarted world_fresh))"
    by (simp add: poll_cycle_def seq_def storage_call_def print_def world_outage_def world_fresh_def)
  have first: "run unstamp stamp [cycle_fail1, cycle_fail2] world_outage =
     (Stopped, print PrintStopped (print (PrintError ''database is locked'')
        (print ClearExpiredLocks (print PrintStarted world_fresh))))"
    using stops [of world_outage "StorageError ''database is locked''"
        "print ClearExpiredLocks (print PrintStarted world_fresh)"] raised
    by simp
  have f2: "faults (print PrintStarted world_outage_ready) = None # Some ''database is locked'' # []"
    by (simp add: print_def world_outage_ready_def)
  obtain e2 w2 where p2:
    "poll_cycle unstamp stamp cycle_fail1 (print PrintStarted world_outage_ready) = (e2, w2)"
    by (cases "poll_cycle unstamp stamp cycle_fail1 (print PrintStarted world_outage_ready)")
  from stops [of world_outage_ready _ _ "''database is locked''" "[]"] f2 p2
  have e2: "e2 = Inl (StorageError ''database is locked'')"
    by simp
  have second: "fst (run unstamp stamp [cycle_fail1, cycle_fail2] world_outage_ready) = Stopped"
    using stops [of world_outage_ready "StorageError ''database is locked''" w2] p2 e2
    by simp
  have f3: "faults (print PrintStarted world_outage_lock) =
      None # None # Some ''database is locked'' # []"
    by (simp add: print_def world_outage_lock_def)
  have ready: "get_ready_jobs unstamp (t_poll cycle_fail1)
      (clear_expired_locks (t_poll cycle_fail1) (db (print PrintStarted world_outage_lock))) \<noteq> []"
    by (simp add: store_defs print_def world_outage_lock_def world_fresh_def job_j_def cycle_fail1_def)
  obtain e3 w3 where p3:
    "poll_cycle unstamp stamp cycle_fail1 (print PrintStarted world_outage_lock) = (e3, w3)"
    by (cases "poll_cycle unstamp stamp cycle_fail1 (print PrintStarted world_outage_lock)")
  from stops [of world_outage_lock _ _ "''database is locked''" "[]"] f3 ready p3
  have e3: "e3 = Inl (StorageError ''database is locked'')"
    by simp
  have third: "fst (run unstamp stamp [cycle_fail1, cycle_fail2] world_outage_lock) = Stopped"
    using stops [of world_outage_lock "StorageError ''database is locked''" w3] p3 e3
    by simp
  from first second third show ?thesis by simp
qed

text \<open>
  With no shutdown signal in either of two cycles, a database error at the first call
  stops the worker: nothing is polled after the error is printed.
\<close>

theorem storage_error_stops_worker_counterexample:
  "\<not> stop cycle_fail1 \<and> \<not> stop cycle_fail2 \<and>
   fst (run unstamp stamp [cycle_fail1, cycle_fail2] world_outage) = Stopped \<and>
   calls (snd (run unstamp stamp [cycle_fail1, cycle_fail2] world_outage)) =
     [PrintStarted, ClearExpiredLocks, PrintError ''database is locked'', PrintStopped]"
  by (simp add: run_def poll_cycle_def seq_def storage_call_def print_def world_outage_def
      world_fresh_def cycle_fail1_def cycle_fail2_def)

end
